theory Spec2Isabelle
  imports Complex_Main
begin

section \<open>The font analysis script \<^verbatim>\<open>analyze-pdf-fonts.py\<close>\<close>

text \<open>
  The script has one function, \<^verbatim>\<open>analyze_pdf_fonts(pdf_path)\<close>. It prints a report in two
  phases, each in a \<^verbatim>\<open>try\<close> block of its own: the first reads the file with PyPDF2, the
  second with pdfplumber. Both libraries, the builtin \<^verbatim>\<open>open\<close> and Python's \<^verbatim>\<open>repr\<close> are
  outside the script: they are the fields of the record \<open>env\<close> below, and every theorem
  holds for every value of them. Each library call is a value of a sum type, \<open>Inl\<close> the
  exception it raises.

  A Python \<^verbatim>\<open>str\<close> is a \<open>string\<close>, one \<open>char\<close> standing for one character of the text.
  The font sizes are numbers: the model takes the exact value of each as a \<open>rat\<close> (every
  finite float is one) and leaves the printing of a float to \<open>repr_float\<close> of the
  environment. Left out of the model: a \<^verbatim>\<open>print\<close> that fails, a size that is not a finite
  number, and a key or value of the metadata that cannot be formatted.
\<close>

subsection \<open>Exceptions, library objects and the environment\<close>

text \<open>
  An exception carries the text \<^verbatim>\<open>str(e)\<close>. \<^verbatim>\<open>except Exception\<close> catches the instances of
  \<^verbatim>\<open>Exception\<close> only; \<^verbatim>\<open>KeyboardInterrupt\<close> and \<^verbatim>\<open>SystemExit\<close> are not among them.
\<close>

datatype exn = Exception string | BaseException string

type_synonym fd = nat

text \<open>A page of PyPDF2: \<^verbatim>\<open>page.extract_text()\<close>.\<close>

record pypdf2_page =
  extract_text :: "exn + string"

text \<open>
  A \<^verbatim>\<open>PdfReader\<close>: \<^verbatim>\<open>len(pdf_reader.pages)\<close>, \<^verbatim>\<open>pdf_reader.pages[i]\<close> (the page list is lazy:
  both may fail on their own) and \<^verbatim>\<open>pdf_reader.metadata\<close>, which is \<^verbatim>\<open>None\<close> or a mapping,
  here the list of its items with key and value already formatted.
\<close>

record pypdf2_reader =
  num_pages :: "exn + nat"
  get_page :: "nat \<Rightarrow> exn + pypdf2_page"
  metadata :: "exn + (string \<times> string) list option"

text \<open>
  A character record of pdfplumber is a dictionary; the script reads the keys
  \<^verbatim>\<open>text\<close>, \<^verbatim>\<open>fontname\<close> and \<^verbatim>\<open>size\<close>, each of which may be missing.
\<close>

record char_rec =
  c_text :: "string option"
  c_fontname :: "string option"
  c_size :: "rat option"

text \<open>A page of pdfplumber: \<^verbatim>\<open>page.extract_text()\<close> (a string or \<^verbatim>\<open>None\<close>) and \<^verbatim>\<open>page.chars\<close>.\<close>

record plumber_page =
  pl_extract_text :: "exn + string option"
  pl_chars :: "exn + char_rec list"

text \<open>The document of pdfplumber: the stream it holds open, and \<^verbatim>\<open>pdf.pages\<close>, a list.\<close>

record plumber_pdf =
  pl_stream :: fd
  pl_pages :: "exn + plumber_page list"

text \<open>
  The environment of a run. \<open>hash_rank\<close> stands for the hash seed of the process: a set
  of strings is iterated in an order that Python does not specify and that changes from
  one process to the next.
\<close>

record env =
  open_rb :: "string \<Rightarrow> exn + fd"
  PdfReader :: "fd \<Rightarrow> exn + pypdf2_reader"
  pdfplumber_open :: "string \<Rightarrow> exn + plumber_pdf"
  repr_str :: "string \<Rightarrow> string"
  repr_float :: "rat \<Rightarrow> string"
  hash_rank :: "string \<Rightarrow> nat"

subsection \<open>Console and file handles\<close>

text \<open>
  The state of a run: the arguments of the \<^verbatim>\<open>print\<close> calls so far, and the log of the file
  handles opened and closed. A statement takes the state and returns the new one, with
  the exception that leaves it, if any.
\<close>

datatype fd_event = Opened fd | Closed fd

record state =
  stdout :: "string list"
  fd_log :: "fd_event list"

type_synonym stmt = "state \<Rightarrow> exn option \<times> state"

definition init :: state where
  "init = \<lparr>stdout = [], fd_log = []\<rparr>"

definition py_print :: "string \<Rightarrow> stmt" where
  "py_print line s = (None, s\<lparr>stdout := stdout s @ [line]\<rparr>)"

definition pass :: stmt where
  "pass s = (None, s)"

definition raise :: "exn \<Rightarrow> stmt" where
  "raise e s = (Some e, s)"

text \<open>Two statements in sequence: the second does not run when the first raises.\<close>

definition seq :: "stmt \<Rightarrow> stmt \<Rightarrow> stmt" where
  "seq a b s = (case a s of (None, s') \<Rightarrow> b s' | (Some e, s') \<Rightarrow> (Some e, s'))"

text \<open>A library call, then the statements that use its result.\<close>

definition call :: "exn + 'a \<Rightarrow> ('a \<Rightarrow> stmt) \<Rightarrow> stmt" where
  "call r k = (case r of Inl e \<Rightarrow> raise e | Inr v \<Rightarrow> k v)"

definition if_then :: "bool \<Rightarrow> stmt \<Rightarrow> stmt" where
  "if_then b a = (if b then a else pass)"

fun for_each :: "('a \<Rightarrow> stmt) \<Rightarrow> 'a list \<Rightarrow> stmt" where
  "for_each body [] = pass"
| "for_each body (x # xs) = seq (body x) (for_each body xs)"

text \<open>
  \<^verbatim>\<open>with EXPR as h: BODY\<close>: when \<^verbatim>\<open>EXPR\<close> raises there is no handle; otherwise the handle
  is open while the body runs and is closed when the body is left, normally or by an
  exception, which then goes on.
\<close>

definition with_handle :: "exn + 'a \<Rightarrow> ('a \<Rightarrow> fd) \<Rightarrow> ('a \<Rightarrow> stmt) \<Rightarrow> stmt" where
  "with_handle r handle_of body s =
     (case r of
        Inl e \<Rightarrow> (Some e, s)
      | Inr h \<Rightarrow>
          (case body h (s\<lparr>fd_log := fd_log s @ [Opened (handle_of h)]\<rparr>) of
             (res, s') \<Rightarrow> (res, s'\<lparr>fd_log := fd_log s' @ [Closed (handle_of h)]\<rparr>)))"

text \<open>\<^verbatim>\<open>try: BODY except Exception as e: HANDLER\<close>, the handler given \<^verbatim>\<open>str(e)\<close>.\<close>

definition try_except :: "stmt \<Rightarrow> (string \<Rightarrow> stmt) \<Rightarrow> stmt" where
  "try_except body handler s =
     (case body s of
        (None, s') \<Rightarrow> (None, s')
      | (Some (Exception m), s') \<Rightarrow> handler m s'
      | (Some (BaseException m), s') \<Rightarrow> (Some (BaseException m), s'))"

subsection \<open>Formatting\<close>

definition digit_char :: "nat \<Rightarrow> char" where
  "digit_char d = ''0123456789'' ! d"

fun str_nat :: "nat \<Rightarrow> string" where
  "str_nat n = (if n < 10 then [digit_char n] else str_nat (n div 10) @ [digit_char (n mod 10)])"

declare str_nat.simps [simp del]

definition newline :: string where
  "newline = [CHR 0x0A]"

fun join :: "string \<Rightarrow> string list \<Rightarrow> string" where
  "join sep [] = []"
| "join sep [x] = x"
| "join sep (x # y # ys) = x @ sep @ join sep (y # ys)"

text \<open>\<^verbatim>\<open>str\<close> of a list of floats.\<close>

definition str_float_list :: "env \<Rightarrow> rat list \<Rightarrow> string" where
  "str_float_list env xs = ''['' @ join '', '' (map (repr_float env) xs) @ '']''"

subsection \<open>Sets and rounding\<close>

text \<open>
  A Python set is kept as the list of its members in the order they first came in;
  \<^verbatim>\<open>s.add(x)\<close> does nothing when \<open>x\<close> is a member.
\<close>

definition set_add :: "'a \<Rightarrow> 'a list \<Rightarrow> 'a list" where
  "set_add x s = (if x \<in> set s then s else s @ [x])"

text \<open>
  The order in which a set of strings is iterated: by the rank the process gives each
  string, members of equal rank in the order they came in.
\<close>

definition iter_str_set :: "env \<Rightarrow> string list \<Rightarrow> string list" where
  "iter_str_set env s = sort_key (hash_rank env) s"

text \<open>\<^verbatim>\<open>str\<close> of a set of strings: \<^verbatim>\<open>set()\<close> when empty.\<close>

definition str_str_set :: "env \<Rightarrow> string list \<Rightarrow> string" where
  "str_str_set env s =
     (if s = [] then ''set()''
      else ''{'' @ join '', '' (map (repr_str env) (iter_str_set env s)) @ ''}'')"

text \<open>
  \<^verbatim>\<open>round(x, 1)\<close>: the nearest multiple of one tenth, a tie going to the even one.
\<close>

definition round_half_even :: "rat \<Rightarrow> int" where
  "round_half_even y =
     (let f = \<lfloor>y\<rfloor>; d = y - of_int f
      in if d < 1 / 2 then f else if 1 / 2 < d then f + 1 else if even f then f else f + 1)"

definition py_round1 :: "rat \<Rightarrow> rat" where
  "py_round1 x = of_int (round_half_even (x * 10)) / 10"

text \<open>\<^verbatim>\<open>sorted(s)\<close> of a set of numbers.\<close>

definition sorted_of :: "rat list \<Rightarrow> rat list" where
  "sorted_of s = sort s"

subsection \<open>Phase 1: PyPDF2\<close>

text \<open>
  Lines 16 to 19 of the script: the metadata, printed when it is neither \<^verbatim>\<open>None\<close> nor
  empty. Lines 22 to 25: the text of the first page. Lines 11 to 25: the body of the
  \<^verbatim>\<open>try\<close> block, and lines 9 to 28 the phase.
\<close>

definition print_metadata :: "(string \<times> string) list option \<Rightarrow> stmt" where
  "print_metadata md =
     (case md of
        None \<Rightarrow> pass
      | Some items \<Rightarrow>
          if_then (items \<noteq> [])
            (seq (py_print (newline @ ''PDF Metadata:''))
                 (for_each (\<lambda>(key, val). py_print (''  '' @ key @ '': '' @ val)) items)))"

definition pypdf2_first_page :: "pypdf2_reader \<Rightarrow> stmt" where
  "pypdf2_first_page pdf_reader =
     call (num_pages pdf_reader) (\<lambda>n.
       if_then (n > 0)
         (call (get_page pdf_reader 0) (\<lambda>page.
          call (extract_text page) (\<lambda>text.
            py_print (newline @ ''First 500 characters of text:'' @ newline
                        @ take 500 text @ ''...'')))))"

definition pypdf2_body :: "env \<Rightarrow> string \<Rightarrow> stmt" where
  "pypdf2_body env pdf_path =
     with_handle (open_rb env pdf_path) (\<lambda>file. file) (\<lambda>file.
       call (PdfReader env file) (\<lambda>pdf_reader.
       call (num_pages pdf_reader) (\<lambda>n.
         seq (py_print (''Number of pages: '' @ str_nat n))
        (call (metadata pdf_reader) (\<lambda>md.
         seq (print_metadata md)
             (pypdf2_first_page pdf_reader))))))"

definition pypdf2_phase :: "env \<Rightarrow> string \<Rightarrow> stmt" where
  "pypdf2_phase env pdf_path =
     try_except (pypdf2_body env pdf_path) (\<lambda>e. py_print (''PyPDF2 error: '' @ e))"

subsection \<open>Phase 2: pdfplumber\<close>

text \<open>Lines 43 to 46 of the script: the preview, printed when the text is not empty.\<close>

definition text_preview :: "string option \<Rightarrow> stmt" where
  "text_preview text =
     (case text of
        None \<Rightarrow> pass
      | Some t \<Rightarrow>
          if_then (t \<noteq> [])
            (seq (py_print (newline @ ''Extracted text preview (first 300 chars):''))
                 (py_print (take 300 t @ ''...''))))"

text \<open>Lines 52 to 59: the loop over \<^verbatim>\<open>chars[:100]\<close> that fills \<^verbatim>\<open>fonts\<close> and \<^verbatim>\<open>font_sizes\<close>.\<close>

fun collect :: "char_rec list \<Rightarrow> string list \<times> rat list \<Rightarrow> string list \<times> rat list" where
  "collect [] (fonts, font_sizes) = (fonts, font_sizes)"
| "collect (char # rest) (fonts, font_sizes) =
     collect rest
       ((case c_fontname char of None \<Rightarrow> fonts | Some f \<Rightarrow> set_add f fonts),
        (case c_size char of None \<Rightarrow> font_sizes | Some z \<Rightarrow> set_add (py_round1 z) font_sizes))"

definition fonts_found :: "char_rec list \<Rightarrow> string list" where
  "fonts_found chars = fst (collect (take 100 chars) ([], []))"

definition font_sizes_found :: "char_rec list \<Rightarrow> rat list" where
  "font_sizes_found chars = snd (collect (take 100 chars) ([], []))"

text \<open>Lines 61 and 62: the two lines that print the sets.\<close>

definition font_report :: "env \<Rightarrow> char_rec list \<Rightarrow> stmt" where
  "font_report env chars =
     seq (py_print (newline @ ''Unique fonts found: '' @ str_str_set env (fonts_found chars)))
         (py_print (''Font sizes found: ''
                      @ str_float_list env (sorted_of (font_sizes_found chars))))"

text \<open>
  \<^verbatim>\<open>d.get(key, default)\<close>, given what the dictionary holds under the key. The size is
  formatted when it is there; the default for it is a string.
\<close>

definition dict_get :: "'a option \<Rightarrow> 'a \<Rightarrow> 'a" where
  "dict_get v dflt = (case v of None \<Rightarrow> dflt | Some x \<Rightarrow> x)"

definition sample_line :: "env \<Rightarrow> nat \<times> char_rec \<Rightarrow> string" where
  "sample_line env ic =
     (case ic of (i, char) \<Rightarrow>
        ''  Char '' @ str_nat i @ '': '' @ [CHR 0x27] @ dict_get (c_text char) [] @ [CHR 0x27]
          @ '' - Font: '' @ dict_get (c_fontname char) ''N/A''
          @ '' - Size: '' @ dict_get (map_option (repr_float env) (c_size char)) ''N/A'')"

text \<open>Lines 65 to 67: the sample. Lines 49 to 67: the report on the character records.\<close>

definition sample_details :: "env \<Rightarrow> char_rec list \<Rightarrow> stmt" where
  "sample_details env chars =
     seq (py_print (newline @ ''Sample character details (first 5):''))
         (for_each (\<lambda>ic. py_print (sample_line env ic)) (enumerate 0 (take 5 chars)))"

definition chars_report :: "env \<Rightarrow> char_rec list \<Rightarrow> stmt" where
  "chars_report env chars =
     if_then (chars \<noteq> []) (seq (font_report env chars) (sample_details env chars))"

text \<open>Lines 39 to 67: the first page, when there is one. Lines 34 to 67: the body.\<close>

definition plumber_first_page :: "env \<Rightarrow> plumber_page list \<Rightarrow> stmt" where
  "plumber_first_page env pages =
     (case pages of
        [] \<Rightarrow> pass
      | page # _ \<Rightarrow>
          call (pl_extract_text page) (\<lambda>text.
            seq (text_preview text)
                (call (pl_chars page) (\<lambda>chars. chars_report env chars))))"

definition plumber_body :: "env \<Rightarrow> string \<Rightarrow> stmt" where
  "plumber_body env pdf_path =
     with_handle (pdfplumber_open env pdf_path) pl_stream (\<lambda>pdf.
       seq (py_print ''PDF opened with pdfplumber'')
      (call (pl_pages pdf) (\<lambda>pages.
       seq (py_print (''Number of pages: '' @ str_nat (length pages)))
           (plumber_first_page env pages))))"

definition plumber_phase :: "env \<Rightarrow> string \<Rightarrow> stmt" where
  "plumber_phase env pdf_path =
     try_except (plumber_body env pdf_path) (\<lambda>e. py_print (''pdfplumber error: '' @ e))"

subsection \<open>The whole function\<close>

definition separator :: string where
  "separator = newline @ replicate 50 CHR ''='' @ newline"

definition analyze_pdf_fonts :: "env \<Rightarrow> string \<Rightarrow> stmt" where
  "analyze_pdf_fonts env pdf_path =
     seq (py_print (''Analyzing PDF: '' @ pdf_path @ newline))
    (seq (pypdf2_phase env pdf_path)
    (seq (py_print separator)
         (plumber_phase env pdf_path)))"

text \<open>
  The process: the script calls \<^verbatim>\<open>analyze_pdf_fonts("good-fonts.pdf")\<close> and ends with status
  0 unless an exception leaves the function.
\<close>

definition exit_status :: "exn option \<times> state \<Rightarrow> nat" where
  "exit_status r = (case fst r of None \<Rightarrow> 0 | Some e \<Rightarrow> 1)"

definition main :: "env \<Rightarrow> exn option \<times> state" where
  "main env = analyze_pdf_fonts env ''good-fonts.pdf'' init"

subsection \<open>What the blocks print\<close>

text \<open>The lines of the metadata block, of the two font lines, of the sample and of the preview.\<close>

definition metadata_lines :: "(string \<times> string) list option \<Rightarrow> string list" where
  "metadata_lines md =
     (case md of
        None \<Rightarrow> []
      | Some items \<Rightarrow>
          if items = [] then []
          else (newline @ ''PDF Metadata:'') # map (\<lambda>(key, val). ''  '' @ key @ '': '' @ val) items)"

definition font_lines :: "env \<Rightarrow> char_rec list \<Rightarrow> string list" where
  "font_lines env chars =
     [newline @ ''Unique fonts found: '' @ str_str_set env (fonts_found chars),
      ''Font sizes found: '' @ str_float_list env (sorted_of (font_sizes_found chars))]"

definition sample_lines :: "env \<Rightarrow> char_rec list \<Rightarrow> string list" where
  "sample_lines env chars =
     (newline @ ''Sample character details (first 5):'')
       # map (sample_line env) (enumerate 0 (take 5 chars))"

definition preview_lines :: "string option \<Rightarrow> string list" where
  "preview_lines text =
     (case text of
        None \<Rightarrow> []
      | Some t \<Rightarrow>
          if t = [] then []
          else [newline @ ''Extracted text preview (first 300 chars):'', take 300 t @ ''...''])"

definition chars_lines :: "env \<Rightarrow> char_rec list \<Rightarrow> string list" where
  "chars_lines env chars =
     (if chars = [] then [] else font_lines env chars @ sample_lines env chars)"

text \<open>A statement that takes nothing back from the console.\<close>

definition stdout_grows :: "stmt \<Rightarrow> bool" where
  "stdout_grows a = (\<forall>s. \<exists>lines. stdout (snd (a s)) = stdout s @ lines)"

text \<open>A statement that opens and closes no handle.\<close>

definition keeps_fd_log :: "stmt \<Rightarrow> bool" where
  "keeps_fd_log a = (\<forall>s. fd_log (snd (a s)) = fd_log s)"

subsection \<open>The sample line as the specification words it\<close>

text \<open>
  Each record of the sample is rendered as its index, its text or the empty string, its
  font name or \<^verbatim>\<open>N/A\<close>, and its size or \<^verbatim>\<open>N/A\<close>.
\<close>

definition spec_sample_line :: "env \<Rightarrow> nat \<Rightarrow> char_rec \<Rightarrow> string" where
  "spec_sample_line env i c =
     ''  Char '' @ str_nat i @ '': '' @ [CHR 0x27]
       @ (case c_text c of Some t \<Rightarrow> t | None \<Rightarrow> [])
       @ [CHR 0x27] @ '' - Font: ''
       @ (case c_fontname c of Some f \<Rightarrow> f | None \<Rightarrow> ''N/A'')
       @ '' - Size: ''
       @ (case c_size c of Some z \<Rightarrow> repr_float env z | None \<Rightarrow> ''N/A'')"

subsection \<open>Example documents\<close>

text \<open>
  Stand-ins for \<^verbatim>\<open>repr\<close> in the examples: a string between quotes, and a number with one
  digit after the point (the examples print no other numbers).
\<close>

definition example_repr_str :: "string \<Rightarrow> string" where
  "example_repr_str s = [CHR 0x27] @ s @ [CHR 0x27]"

definition example_repr_float :: "rat \<Rightarrow> string" where
  "example_repr_float z = str_nat (nat \<lfloor>z\<rfloor>) @ ''.'' @ str_nat (nat (\<lfloor>z * 10\<rfloor> mod 10))"

definition no_such_file :: "string \<Rightarrow> exn" where
  "no_such_file p = Exception (''[Errno 2] No such file or directory: '' @ example_repr_str p)"

text \<open>
  A directory that holds one file, \<^verbatim>\<open>good-fonts.pdf\<close>: a document of \<open>n\<close> pages, each with
  the text \<open>text\<close> and the character records \<open>chars\<close>, and no metadata.
\<close>

definition example_page :: "string \<Rightarrow> pypdf2_page" where
  "example_page text = \<lparr>extract_text = Inr text\<rparr>"

definition example_reader :: "nat \<Rightarrow> string \<Rightarrow> pypdf2_reader" where
  "example_reader n text =
     \<lparr>num_pages = Inr n,
      get_page = (\<lambda>i. if i < n then Inr (example_page text)
                       else Inl (Exception ''sequence index out of range'')),
      metadata = Inr None\<rparr>"

definition example_plumber_page :: "string \<Rightarrow> char_rec list \<Rightarrow> plumber_page" where
  "example_plumber_page text chars = \<lparr>pl_extract_text = Inr (Some text), pl_chars = Inr chars\<rparr>"

definition example_pdf :: "nat \<Rightarrow> string \<Rightarrow> char_rec list \<Rightarrow> plumber_pdf" where
  "example_pdf n text chars =
     \<lparr>pl_stream = 4, pl_pages = Inr (replicate n (example_plumber_page text chars))\<rparr>"

definition example_env :: "nat \<Rightarrow> string \<Rightarrow> char_rec list \<Rightarrow> env" where
  "example_env n text chars =
     \<lparr>open_rb = (\<lambda>p. if p = ''good-fonts.pdf'' then Inr 3 else Inl (no_such_file p)),
      PdfReader = (\<lambda>file. Inr (example_reader n text)),
      pdfplumber_open = (\<lambda>p. if p = ''good-fonts.pdf'' then Inr (example_pdf n text chars)
                               else Inl (no_such_file p)),
      repr_str = example_repr_str,
      repr_float = example_repr_float,
      hash_rank = length\<rparr>"

text \<open>One page that reads \<^verbatim>\<open>Hello World\<close> in one font of 12 points.\<close>

definition hello_char :: "char \<Rightarrow> char_rec" where
  "hello_char ch = \<lparr>c_text = Some [ch], c_fontname = Some ''Helvetica'', c_size = Some 12\<rparr>"

definition hello_env :: env where
  "hello_env = example_env 1 ''Hello World'' (map hello_char ''Hello World'')"

text \<open>The same file, damaged: it opens, and PyPDF2 cannot read it.\<close>

definition damaged_env :: env where
  "damaged_env = hello_env\<lparr>PdfReader := \<lambda>file. Inl (Exception ''EOF marker not found'')\<rparr>"

text \<open>Character records with a size only, and with nothing at all.\<close>

definition sized :: "rat \<Rightarrow> char_rec" where
  "sized z = \<lparr>c_text = None, c_fontname = None, c_size = Some z\<rparr>"

definition bare :: char_rec where
  "bare = \<lparr>c_text = None, c_fontname = None, c_size = None\<rparr>"


text \<open>A page in two fonts, and a process that ranks all strings alike.\<close>

definition two_fonts :: "char_rec list" where
  "two_fonts =
     [\<lparr>c_text = Some ''a'', c_fontname = Some ''Helvetica'', c_size = Some 12\<rparr>,
      \<lparr>c_text = Some ''b'', c_fontname = Some ''Times'', c_size = Some 9\<rparr>]"

definition two_fonts_env :: env where
  "two_fonts_env = example_env 1 ''ab'' two_fonts"

definition flat_rank_env :: env where
  "flat_rank_env = two_fonts_env\<lparr>hash_rank := \<lambda>s. 0\<rparr>"

section \<open>Properties\<close>

subsection \<open>Running the blocks\<close>

lemma seq_print: "seq (py_print l) b s = b (s\<lparr>stdout := stdout s @ [l]\<rparr>)"
  by (simp add: seq_def py_print_def)

lemma for_each_print:
  "for_each (\<lambda>x. py_print (f x)) xs s = (None, s\<lparr>stdout := stdout s @ map f xs\<rparr>)"
  by (induction xs arbitrary: s) (simp_all add: pass_def seq_print py_print_def)

lemma print_metadata_run:
  "print_metadata md s = (None, s\<lparr>stdout := stdout s @ metadata_lines md\<rparr>)"
  by (cases md)
     (simp_all add: print_metadata_def metadata_lines_def pass_def if_then_def seq_print
        for_each_print [where f = "\<lambda>(key, val). ''  '' @ key @ '': '' @ val", simplified]
        case_prod_unfold for_each_print)

lemma font_report_run:
  "font_report env chars s = (None, s\<lparr>stdout := stdout s @ font_lines env chars\<rparr>)"
  by (simp add: font_report_def font_lines_def seq_print py_print_def)

lemma sample_details_run:
  "sample_details env chars s = (None, s\<lparr>stdout := stdout s @ sample_lines env chars\<rparr>)"
  by (simp add: sample_details_def sample_lines_def seq_print for_each_print)

lemma chars_report_run:
  "chars_report env chars s = (None, s\<lparr>stdout := stdout s @ chars_lines env chars\<rparr>)"
  by (simp add: chars_report_def chars_lines_def if_then_def pass_def seq_def
      font_report_run sample_details_run)

subsection \<open>A file that is not there\<close>

lemma pypdf2_phase_missing:
  "open_rb env p = Inl (Exception m) \<Longrightarrow>
   pypdf2_phase env p s = (None, s\<lparr>stdout := stdout s @ [''PyPDF2 error: '' @ m]\<rparr>)"
  by (simp add: pypdf2_phase_def pypdf2_body_def try_except_def with_handle_def py_print_def)

lemma plumber_phase_missing:
  "pdfplumber_open env p = Inl (Exception m) \<Longrightarrow>
   plumber_phase env p s = (None, s\<lparr>stdout := stdout s @ [''pdfplumber error: '' @ m]\<rparr>)"
  by (simp add: plumber_phase_def plumber_body_def try_except_def with_handle_def py_print_def)

text \<open>
  Claim C1. When the path does not exist, both \<^verbatim>\<open>open\<close> and \<^verbatim>\<open>pdfplumber.open\<close> raise an
  \<^verbatim>\<open>Exception\<close> (a \<^verbatim>\<open>FileNotFoundError\<close>). Then the run prints the first line, a line
  \<^verbatim>\<open>PyPDF2 error: ...\<close>, the separator and a line \<^verbatim>\<open>pdfplumber error: ...\<close>: the second
  phase runs although the first failed, no exception leaves the function, and the
  process ends with status 0.
\<close>

theorem missing_file_both_phases_report:
  assumes "open_rb env pdf_path = Inl (Exception m1)"
    and "pdfplumber_open env pdf_path = Inl (Exception m2)"
  shows "analyze_pdf_fonts env pdf_path s =
           (None, s\<lparr>stdout := stdout s @
              [''Analyzing PDF: '' @ pdf_path @ newline,
               ''PyPDF2 error: '' @ m1,
               separator,
               ''pdfplumber error: '' @ m2]\<rparr>)
         \<and> exit_status (analyze_pdf_fonts env pdf_path s) = 0"
  using assms
  by (simp add: analyze_pdf_fonts_def exit_status_def py_print_def seq_def
      pypdf2_phase_missing plumber_phase_missing)

theorem missing_file_witness:
  "open_rb hello_env ''missing.pdf'' = Inl (no_such_file ''missing.pdf'')
   \<and> pdfplumber_open hello_env ''missing.pdf'' = Inl (no_such_file ''missing.pdf'')
   \<and> stdout (snd (analyze_pdf_fonts hello_env ''missing.pdf'' init)) =
        [''Analyzing PDF: missing.pdf'' @ newline,
         ''PyPDF2 error: [Errno 2] No such file or directory: '' @ example_repr_str ''missing.pdf'',
         separator,
         ''pdfplumber error: [Errno 2] No such file or directory: '' @ example_repr_str ''missing.pdf'']
   \<and> exit_status (analyze_pdf_fonts hello_env ''missing.pdf'' init) = 0"
proof -
  have o: "open_rb hello_env ''missing.pdf''
             = Inl (Exception (''[Errno 2] No such file or directory: '' @ example_repr_str ''missing.pdf''))"
    by (simp add: hello_env_def example_env_def no_such_file_def)
  have p: "pdfplumber_open hello_env ''missing.pdf''
             = Inl (Exception (''[Errno 2] No such file or directory: '' @ example_repr_str ''missing.pdf''))"
    by (simp add: hello_env_def example_env_def no_such_file_def)
  note run = missing_file_both_phases_report [OF o p, of init]
  have out: "stdout (snd (analyze_pdf_fonts hello_env ''missing.pdf'' init)) =
        [''Analyzing PDF: missing.pdf'' @ newline,
         ''PyPDF2 error: [Errno 2] No such file or directory: '' @ example_repr_str ''missing.pdf'',
         separator,
         ''pdfplumber error: [Errno 2] No such file or directory: '' @ example_repr_str ''missing.pdf'']"
    by (simp only: conjunct1 [OF run]) (simp add: init_def)
  show ?thesis
    using o p out conjunct2 [OF run] by (simp add: no_such_file_def)
qed

subsection \<open>File handles\<close>

text \<open>Statements that leave the handles alone.\<close>

lemma keeps_fd_log_print: "keeps_fd_log (py_print l)"
  by (simp add: keeps_fd_log_def py_print_def)

lemma keeps_fd_log_pass: "keeps_fd_log pass"
  by (simp add: keeps_fd_log_def pass_def)

lemma keeps_fd_log_raise: "keeps_fd_log (raise e)"
  by (simp add: keeps_fd_log_def raise_def)

lemma keeps_fd_log_seq:
  assumes "keeps_fd_log a" and "keeps_fd_log b"
  shows "keeps_fd_log (seq a b)"
  unfolding keeps_fd_log_def
proof
  fix s
  obtain r s' where as: "a s = (r, s')" by (cases "a s")
  have 1: "fd_log s' = fd_log s"
    using assms(1) as by (auto simp: keeps_fd_log_def dest: spec [of _ s])
  have 2: "fd_log (snd (b s')) = fd_log s'"
    using assms(2) by (simp add: keeps_fd_log_def)
  show "fd_log (snd (seq a b s)) = fd_log s"
    using as 1 2 by (cases r) (simp_all add: seq_def)
qed

lemma keeps_fd_log_call:
  "(\<And>v. keeps_fd_log (k v)) \<Longrightarrow> keeps_fd_log (call r k)"
  by (cases r) (simp_all add: call_def keeps_fd_log_raise)

lemma keeps_fd_log_if_then: "keeps_fd_log a \<Longrightarrow> keeps_fd_log (if_then b a)"
  by (simp add: if_then_def keeps_fd_log_pass)

lemma keeps_fd_log_run:
  "(\<And>s. a s = (None, s\<lparr>stdout := stdout s @ f\<rparr>)) \<Longrightarrow> keeps_fd_log a"
  by (simp add: keeps_fd_log_def)

lemma keeps_fd_log_pypdf2_first_page: "keeps_fd_log (pypdf2_first_page rd)"
  unfolding pypdf2_first_page_def
  by (intro keeps_fd_log_call keeps_fd_log_if_then keeps_fd_log_print)

lemma keeps_fd_log_pypdf2_inner:
  "keeps_fd_log (call (PdfReader env file) (\<lambda>pdf_reader.
       call (num_pages pdf_reader) (\<lambda>n.
         seq (py_print (''Number of pages: '' @ str_nat n))
        (call (metadata pdf_reader) (\<lambda>md.
         seq (print_metadata md)
             (pypdf2_first_page pdf_reader))))))"
  by (intro keeps_fd_log_call keeps_fd_log_seq keeps_fd_log_print keeps_fd_log_pypdf2_first_page
      keeps_fd_log_run [OF print_metadata_run])

lemma keeps_fd_log_text_preview: "keeps_fd_log (text_preview text)"
  unfolding text_preview_def
  by (cases "text")
     (simp_all add: keeps_fd_log_pass keeps_fd_log_if_then keeps_fd_log_seq keeps_fd_log_print)

lemma keeps_fd_log_plumber_first_page: "keeps_fd_log (plumber_first_page env pages)"
proof (cases pages)
  case Nil
  then show ?thesis by (simp add: plumber_first_page_def keeps_fd_log_pass)
next
  case (Cons page rest)
  show ?thesis
    unfolding plumber_first_page_def Cons list.case
    by (intro keeps_fd_log_call keeps_fd_log_seq keeps_fd_log_text_preview
        keeps_fd_log_run [OF chars_report_run])
qed

lemma keeps_fd_log_plumber_inner:
  "keeps_fd_log (seq (py_print ''PDF opened with pdfplumber'')
      (call (pl_pages pdf) (\<lambda>pages.
       seq (py_print (''Number of pages: '' @ str_nat (length pages)))
           (plumber_first_page env pages))))"
  by (intro keeps_fd_log_call keeps_fd_log_seq keeps_fd_log_print keeps_fd_log_plumber_first_page)

lemma with_handle_fd_log:
  assumes "\<And>h. keeps_fd_log (body h)"
  shows "fd_log (snd (with_handle r handle_of body s)) =
           fd_log s @ (case r of Inl e \<Rightarrow> [] | Inr h \<Rightarrow> [Opened (handle_of h), Closed (handle_of h)])"
proof (cases r)
  case (Inl e)
  then show ?thesis by (simp add: with_handle_def)
next
  case (Inr h)
  let ?s1 = "s\<lparr>fd_log := fd_log s @ [Opened (handle_of h)]\<rparr>"
  have "fd_log (snd (body h ?s1)) = fd_log ?s1"
    using assms [of h] by (simp add: keeps_fd_log_def)
  then show ?thesis using Inr
    by (simp add: with_handle_def case_prod_unfold)
qed

lemma try_except_print_fd_log:
  "fd_log (snd (try_except body (\<lambda>e. py_print (f e)) s)) = fd_log (snd (body s))"
  by (simp add: try_except_def py_print_def split: prod.splits option.splits exn.splits)

text \<open>
  Claim C3, as the code has it. Line 11 of the script is \<^verbatim>\<open>with open(pdf_path, 'rb') as file:\<close>,
  so the file of phase 1 is held in a scope just as the document of phase 2 is: in
  each phase, whatever the libraries return or raise, a handle that was opened is closed
  when the phase is over, and nothing else is opened.
\<close>

theorem both_handles_scoped:
  "fd_log (snd (pypdf2_phase env pdf_path s)) =
     fd_log s @ (case open_rb env pdf_path of
                   Inl e \<Rightarrow> []
                 | Inr file \<Rightarrow> [Opened file, Closed file])
   \<and> fd_log (snd (plumber_phase env pdf_path s)) =
     fd_log s @ (case pdfplumber_open env pdf_path of
                   Inl e \<Rightarrow> []
                 | Inr pdf \<Rightarrow> [Opened (pl_stream pdf), Closed (pl_stream pdf)])"
proof
  show "fd_log (snd (pypdf2_phase env pdf_path s)) =
     fd_log s @ (case open_rb env pdf_path of
                   Inl e \<Rightarrow> []
                 | Inr file \<Rightarrow> [Opened file, Closed file])"
    unfolding pypdf2_phase_def pypdf2_body_def try_except_print_fd_log
    by (rule with_handle_fd_log [OF keeps_fd_log_pypdf2_inner])
  show "fd_log (snd (plumber_phase env pdf_path s)) =
     fd_log s @ (case pdfplumber_open env pdf_path of
                   Inl e \<Rightarrow> []
                 | Inr pdf \<Rightarrow> [Opened (pl_stream pdf), Closed (pl_stream pdf)])"
    unfolding plumber_phase_def plumber_body_def try_except_print_fd_log
    by (rule with_handle_fd_log [OF keeps_fd_log_plumber_inner])
qed

text \<open>
  Claim C3 as stated says that phase 1 leaves its file to the garbage collector. It does
  not: with a file that PyPDF2 cannot read, the exception leaves the scope and the file
  is closed before the error is printed.
\<close>

theorem phase1_handle_closed_on_exception:
  "pypdf2_phase damaged_env ''good-fonts.pdf'' init =
     (None, \<lparr>stdout = [''PyPDF2 error: EOF marker not found''], fd_log = [Opened 3, Closed 3]\<rparr>)"
  by (simp add: pypdf2_phase_def pypdf2_body_def try_except_def with_handle_def call_def
      raise_def py_print_def init_def damaged_env_def hello_env_def example_env_def)

subsection \<open>The two sets\<close>

lemma distinct_set_add: "distinct s \<Longrightarrow> distinct (set_add x s)"
  by (simp add: set_add_def)

lemma set_set_add: "set (set_add x s) = insert x (set s)"
  by (auto simp: set_add_def)

lemma collect_distinct:
  "distinct fonts \<Longrightarrow> distinct font_sizes \<Longrightarrow>
   distinct (fst (collect cs (fonts, font_sizes))) \<and> distinct (snd (collect cs (fonts, font_sizes)))"
  by (induction cs arbitrary: fonts font_sizes)
     (simp_all add: distinct_set_add split: option.splits)

lemma collect_fonts_set:
  "set (fst (collect cs (fonts, font_sizes))) =
     set fonts \<union> {f. \<exists>c \<in> set cs. c_fontname c = Some f}"
  by (induction cs arbitrary: fonts font_sizes)
     (auto simp: set_set_add split: option.splits)

lemma collect_sizes_set:
  "set (snd (collect cs (fonts, font_sizes))) =
     set font_sizes \<union> py_round1 ` {z. \<exists>c \<in> set cs. c_size c = Some z}"
  by (induction cs arbitrary: fonts font_sizes)
     (auto simp: set_set_add split: option.splits)

lemma round_half_even_of_int: "round_half_even (of_int k) = k"
  by (simp add: round_half_even_def)

lemma py_round1_idem: "py_round1 (py_round1 x) = py_round1 x"
  by (simp add: py_round1_def round_half_even_of_int)

lemma font_sizes_found_set:
  "set (font_sizes_found cs) = py_round1 ` {z. \<exists>c \<in> set (take 100 cs). c_size c = Some z}"
  by (simp add: font_sizes_found_def collect_sizes_set)

lemma font_sizes_found_fixed: "z \<in> set (font_sizes_found cs) \<Longrightarrow> py_round1 z = z"
  by (auto simp: font_sizes_found_set py_round1_idem)

lemma font_sizes_found_pair:
  "py_round1 a = py_round1 b \<Longrightarrow> font_sizes_found [sized a, sized b] = [py_round1 a]"
  by (simp add: font_sizes_found_def sized_def set_add_def)

text \<open>
  Claim C4, as the code has it. Of the first 100 records, the set of font names holds
  each name once, also in the order it is printed in; the set of sizes holds each value
  once, its members are the sizes rounded to one decimal, and no two members round to
  the same number. Two sizes that round to the same number leave one member: 10.04 and
  9.96 leave 10.0.
\<close>

theorem font_sets_have_no_duplicates:
  "distinct (fonts_found cs)
   \<and> distinct (iter_str_set env (fonts_found cs))
   \<and> distinct (font_sizes_found cs)
   \<and> set (font_sizes_found cs) = py_round1 ` {z. \<exists>c \<in> set (take 100 cs). c_size c = Some z}
   \<and> (\<forall>a \<in> set (font_sizes_found cs). \<forall>b \<in> set (font_sizes_found cs).
         py_round1 a = py_round1 b \<longrightarrow> a = b)
   \<and> (py_round1 a = py_round1 b \<longrightarrow> font_sizes_found [sized a, sized b] = [py_round1 a])"
  using collect_distinct [of "[]" "[]" "take 100 cs"]
  by (auto simp: fonts_found_def [symmetric] font_sizes_found_def [symmetric] iter_str_set_def
      font_sizes_found_set [symmetric] font_sizes_found_fixed font_sizes_found_pair)

theorem font_sets_witness:
  "py_round1 (1004 / 100) = py_round1 (996 / 100)
   \<and> font_sizes_found [sized (1004 / 100), sized (996 / 100)] = [10]
   \<and> distinct (fonts_found (map hello_char ''Hello World''))
   \<and> fonts_found (map hello_char ''Hello World'') = [''Helvetica'']
   \<and> font_sizes_found (map hello_char ''Hello World'') = [12]"
proof -
  have r: "py_round1 (1004 / 100) = py_round1 (996 / 100)" by code_simp
  have v: "py_round1 (1004 / 100) = 10" by code_simp
  have f: "fonts_found (map hello_char ''Hello World'') = [''Helvetica'']" by code_simp
  have z: "font_sizes_found (map hello_char ''Hello World'') = [12]" by code_simp
  show ?thesis
    using font_sets_have_no_duplicates
      [of "map hello_char ''Hello World''" hello_env "1004 / 100" "996 / 100"] r v f z
    by simp
qed

text \<open>
  The example of claim C4 as stated does not hold: \<^verbatim>\<open>round(10.06, 1)\<close> is 10.1, so the sizes
  10.04 and 10.06 leave the two members 10.0 and 10.1.
\<close>

theorem sizes_10_04_and_10_06_stay_apart:
  "font_sizes_found [sized (1004 / 100), sized (1006 / 100)] = [10, 101 / 10]"
  by code_simp




subsection \<open>The sample of the character records\<close>

lemma fonts_found_take: "fonts_found (take 100 cs) = fonts_found cs"
  by (simp add: fonts_found_def)

lemma font_sizes_found_take: "font_sizes_found (take 100 cs) = font_sizes_found cs"
  by (simp add: font_sizes_found_def)

lemma sample_details_take: "sample_details env (take 5 cs) = sample_details env cs"
  by (simp add: sample_details_def)

lemma sample_details_take_100: "sample_details env (take 100 cs) = sample_details env cs"
  by (simp add: sample_details_def min_def)

lemma font_report_take: "font_report env (take 100 cs) = font_report env cs"
  by (simp add: font_report_def fonts_found_take font_sizes_found_take)

text \<open>
  Claim C6. The report on the character records is the same for a page and for its first
  100 records: no record after them is looked at, neither for the fonts nor for the
  sizes. The sample is the same for a page and for its first 5 records, and it prints
  the heading and at most 5 lines.
\<close>

theorem sampling_is_bounded:
  "chars_report env (take 100 cs) = chars_report env cs
   \<and> fonts_found (take 100 cs) = fonts_found cs
   \<and> font_sizes_found (take 100 cs) = font_sizes_found cs
   \<and> sample_details env (take 5 cs) = sample_details env cs
   \<and> length (stdout (snd (sample_details env cs s))) \<le> length (stdout s) + 1 + 5"
proof -
  have "(take 100 cs = []) = (cs = [])" by (cases cs) simp_all
  then have "chars_report env (take 100 cs) = chars_report env cs"
    by (simp add: chars_report_def font_report_take sample_details_take_100)
  then show ?thesis
    by (simp add: fonts_found_take font_sizes_found_take sample_details_take
        sample_details_run sample_lines_def)
qed

lemma sample_line_spec: "sample_line env (i, c) = spec_sample_line env i c"
  by (cases "c_text c"; cases "c_fontname c"; cases "c_size c")
     (simp_all add: sample_line_def spec_sample_line_def dict_get_def)

lemma enumerate_map_nth:
  "map f (enumerate 0 xs) = map (\<lambda>i. f (i, xs ! i)) [0..<length xs]"
  by (rule nth_equalityI) (simp_all add: nth_enumerate_eq)

text \<open>
  Claim C8. After its heading the sample prints one line for each of the first 5 records
  (fewer when the page has fewer), in order, each with its index, its text or the empty
  string, its font name or \<^verbatim>\<open>N/A\<close>, and its size or \<^verbatim>\<open>N/A\<close>.
\<close>

theorem sample_lines_as_specified:
  "sample_details env cs s =
     (None, s\<lparr>stdout := stdout s @
        (newline @ ''Sample character details (first 5):'')
          # map (\<lambda>i. spec_sample_line env i (cs ! i)) [0..<min 5 (length cs)]\<rparr>)"
proof -
  have "map (sample_line env) (enumerate 0 (take 5 cs)) =
          map (\<lambda>i. spec_sample_line env i (cs ! i)) [0..<min 5 (length cs)]"
    by (simp add: enumerate_map_nth sample_line_spec min.commute)
  then show ?thesis
    by (simp add: sample_details_run sample_lines_def)
qed

text \<open>A font that first shows in the 101st record is not reported.\<close>

lemma font_in_record_101_not_found:
  "fonts_found (replicate 100 (hello_char CHR ''a'')
       @ [\<lparr>c_text = Some ''b'', c_fontname = Some ''Times'', c_size = Some 9\<rparr>])
     = [''Helvetica'']"
  by code_simp

subsection \<open>The two phases on a file that opens\<close>

lemma text_preview_run:
  "text_preview text s = (None, s\<lparr>stdout := stdout s @ preview_lines text\<rparr>)"
  by (cases "text")
     (simp_all add: text_preview_def preview_lines_def pass_def if_then_def seq_print py_print_def)

lemma pypdf2_phase_run:
  assumes "open_rb env p = Inr file" and "PdfReader env file = Inr rd"
    and "num_pages rd = Inr n" and "0 < n" and "metadata rd = Inr md"
    and "get_page rd 0 = Inr page" and "extract_text page = Inr t"
  shows "pypdf2_phase env p s =
     (None, s\<lparr>stdout := stdout s @ [''Number of pages: '' @ str_nat n] @ metadata_lines md
                   @ [newline @ ''First 500 characters of text:'' @ newline @ take 500 t @ ''...''],
               fd_log := fd_log s @ [Opened file, Closed file]\<rparr>)"
  using assms
  by (simp add: pypdf2_phase_def pypdf2_body_def pypdf2_first_page_def try_except_def
      with_handle_def call_def if_then_def seq_def print_metadata_run py_print_def)

lemma plumber_phase_run:
  assumes "pdfplumber_open env p = Inr pdf" and "pl_pages pdf = Inr (page # rest)"
    and "pl_extract_text page = Inr extracted" and "pl_chars page = Inr cs"
  shows "plumber_phase env p s =
     (None, s\<lparr>stdout := stdout s @
                 [''PDF opened with pdfplumber'',
                  ''Number of pages: '' @ str_nat (length (page # rest))]
                 @ preview_lines extracted @ chars_lines env cs,
               fd_log := fd_log s @ [Opened (pl_stream pdf), Closed (pl_stream pdf)]\<rparr>)"
  using assms
  by (simp add: plumber_phase_def plumber_body_def plumber_first_page_def try_except_def
      with_handle_def call_def seq_def text_preview_run chars_report_run py_print_def)

lemma plumber_phase_preview:
  assumes "pdfplumber_open env p = Inr pdf" and "pl_pages pdf = Inr (page # rest)"
    and "pl_extract_text page = Inr (Some t)" and "t \<noteq> []"
  shows "\<exists>more. stdout (snd (plumber_phase env p s)) =
           stdout s @ [''PDF opened with pdfplumber'',
                       ''Number of pages: '' @ str_nat (length (page # rest)),
                       newline @ ''Extracted text preview (first 300 chars):'',
                       take 300 t @ ''...''] @ more"
proof (cases "pl_chars page")
  case (Inr cs)
  show ?thesis
    unfolding plumber_phase_run [OF assms(1,2,3) Inr]
    using assms(4) by (simp add: preview_lines_def)
next
  case (Inl e)
  with assms show ?thesis
    by (cases e)
       (simp_all add: plumber_phase_def plumber_body_def plumber_first_page_def try_except_def
         with_handle_def call_def seq_def text_preview_run preview_lines_def raise_def py_print_def)
qed

text \<open>No statement of the script takes a line back from the console.\<close>

lemma stdout_growsI: "(\<And>s. \<exists>ls. stdout (snd (a s)) = stdout s @ ls) \<Longrightarrow> stdout_grows a"
  by (simp add: stdout_grows_def)

lemma stdout_growsD: "stdout_grows a \<Longrightarrow> \<exists>ls. stdout (snd (a s)) = stdout s @ ls"
  by (simp add: stdout_grows_def)








lemma stdout_grows_with_handle:
  assumes "\<And>h. stdout_grows (body h)"
  shows "stdout_grows (with_handle r handle_of body)"
proof (rule stdout_growsI)
  fix s
  show "\<exists>ls. stdout (snd (with_handle r handle_of body s)) = stdout s @ ls"
  proof (cases r)
    case (Inl e)
    then show ?thesis by (simp add: with_handle_def)
  next
    case (Inr h)
    then show ?thesis
      using stdout_growsD [OF assms, of h "s\<lparr>fd_log := fd_log s @ [Opened (handle_of h)]\<rparr>"]
      by (simp add: with_handle_def case_prod_unfold)
  qed
qed

lemma stdout_grows_try_except:
  assumes "stdout_grows body"
  shows "stdout_grows (try_except body (\<lambda>e. py_print (f e)))"
proof (rule stdout_growsI)
  fix s
  obtain r s' where bs: "body s = (r, s')" by (cases "body s")
  obtain ls where ls: "stdout s' = stdout s @ ls"
    using stdout_growsD [OF assms, of s] bs by auto
  show "\<exists>ls. stdout (snd (try_except body (\<lambda>e. py_print (f e)) s)) = stdout s @ ls"
    using bs ls
    by (simp add: try_except_def py_print_def split: option.splits exn.splits)
qed






lemma str_nat_1: "str_nat (Suc 0) = ''1''"
  by (simp add: str_nat.simps digit_char_def)


text \<open>
  Claim C2. When the first page has no text, phase 1 (the file opened and read, at least
  one page, \<^verbatim>\<open>extract_text()\<close> returning the empty string) prints its heading, the empty
  string and the ellipsis. In phase 2, where \<^verbatim>\<open>extract_text()\<close> returns \<^verbatim>\<open>None\<close> or the empty
  string, the preview step prints nothing and changes nothing: after the two lines on
  the document come the lines on the character records.
\<close>

theorem no_text_on_first_page:
  "(open_rb env p = Inr file \<and> PdfReader env file = Inr rd \<and> num_pages rd = Inr n \<and> 0 < n
      \<and> metadata rd = Inr md \<and> get_page rd 0 = Inr page \<and> extract_text page = Inr [] \<longrightarrow>
    stdout (snd (pypdf2_phase env p s)) =
      stdout s @ [''Number of pages: '' @ str_nat n] @ metadata_lines md
        @ [newline @ ''First 500 characters of text:'' @ newline @ [] @ ''...''])
   \<and> (extracted = None \<or> extracted = Some [] \<longrightarrow> text_preview extracted s' = (None, s'))
   \<and> (pdfplumber_open env p = Inr pdf \<and> pl_pages pdf = Inr (ppage # rest)
        \<and> pl_extract_text ppage = Inr extracted \<and> (extracted = None \<or> extracted = Some [])
        \<and> pl_chars ppage = Inr cs \<longrightarrow>
      stdout (snd (plumber_phase env p s')) =
        stdout s' @ [''PDF opened with pdfplumber'',
                     ''Number of pages: '' @ str_nat (length (ppage # rest))]
          @ chars_lines env cs)"
proof (intro conjI impI)
  assume "open_rb env p = Inr file \<and> PdfReader env file = Inr rd \<and> num_pages rd = Inr n \<and> 0 < n
      \<and> metadata rd = Inr md \<and> get_page rd 0 = Inr page \<and> extract_text page = Inr []"
  then show "stdout (snd (pypdf2_phase env p s)) =
      stdout s @ [''Number of pages: '' @ str_nat n] @ metadata_lines md
        @ [newline @ ''First 500 characters of text:'' @ newline @ [] @ ''...'']"
    by (simp add: pypdf2_phase_run [where t = "[]"])
next
  assume "extracted = None \<or> extracted = Some []"
  then show "text_preview extracted s' = (None, s')"
    by (auto simp: text_preview_run preview_lines_def)
next
  assume a: "pdfplumber_open env p = Inr pdf \<and> pl_pages pdf = Inr (ppage # rest)
        \<and> pl_extract_text ppage = Inr extracted \<and> (extracted = None \<or> extracted = Some [])
        \<and> pl_chars ppage = Inr cs"
  then have "preview_lines extracted = []"
    by (auto simp: preview_lines_def)
  with a show "stdout (snd (plumber_phase env p s')) =
        stdout s' @ [''PDF opened with pdfplumber'',
                     ''Number of pages: '' @ str_nat (length (ppage # rest))]
          @ chars_lines env cs"
    by (simp add: plumber_phase_run [where extracted = extracted and cs = cs])
qed

theorem no_text_witness:
  "extract_text (example_page []) = Inr []
   \<and> pl_extract_text (example_plumber_page [] [bare]) = Inr (Some [])
   \<and> stdout (snd (pypdf2_phase (example_env 1 [] [bare]) ''good-fonts.pdf'' init)) =
       [''Number of pages: 1'', newline @ ''First 500 characters of text:'' @ newline @ ''...'']
   \<and> text_preview (Some []) init = (None, init)
   \<and> stdout (snd (plumber_phase (example_env 1 [] [bare]) ''good-fonts.pdf'' init)) =
       [''PDF opened with pdfplumber'', ''Number of pages: 1'']
         @ chars_lines (example_env 1 [] [bare]) [bare]"
proof -
  let ?env = "example_env 1 [] [bare]"
  have h1: "open_rb ?env ''good-fonts.pdf'' = Inr 3 \<and> PdfReader ?env 3 = Inr (example_reader 1 [])
      \<and> num_pages (example_reader 1 []) = Inr 1 \<and> (0::nat) < 1
      \<and> metadata (example_reader 1 []) = Inr None
      \<and> get_page (example_reader 1 []) 0 = Inr (example_page [])
      \<and> extract_text (example_page []) = Inr []"
    by (simp add: example_env_def example_reader_def example_page_def)
  have h2: "pdfplumber_open ?env ''good-fonts.pdf'' = Inr (example_pdf 1 [] [bare])
      \<and> pl_pages (example_pdf 1 [] [bare]) = Inr (example_plumber_page [] [bare] # [])
      \<and> pl_extract_text (example_plumber_page [] [bare]) = Inr (Some [])
      \<and> (Some [] = None \<or> Some [] = Some ([]::string))
      \<and> pl_chars (example_plumber_page [] [bare]) = Inr [bare]"
    by (simp add: example_env_def example_pdf_def example_plumber_page_def)
  note inst = no_text_on_first_page [of ?env "''good-fonts.pdf''" 3 "example_reader 1 []" 1 None
      "example_page []" init "Some []" init "example_pdf 1 [] [bare]"
      "example_plumber_page [] [bare]" "[]" "[bare]"]
  from inst h1 have c1: "stdout (snd (pypdf2_phase ?env ''good-fonts.pdf'' init)) =
      stdout init @ [''Number of pages: '' @ str_nat 1] @ metadata_lines None
        @ [newline @ ''First 500 characters of text:'' @ newline @ [] @ ''...'']"
    by blast
  from inst have c2: "text_preview (Some []) init = (None, init)"
    by blast
  from inst h2 have c3: "stdout (snd (plumber_phase ?env ''good-fonts.pdf'' init)) =
        stdout init @ [''PDF opened with pdfplumber'',
                     ''Number of pages: '' @ str_nat (length [example_plumber_page [] [bare]])]
          @ chars_lines ?env [bare]"
    by blast
  have si: "stdout init = []" by (simp add: init_def)
  show ?thesis
    using h1 h2 c1 c2 c3
    by (simp add: si str_nat_1 metadata_lines_def)
qed

text \<open>
  Claim C7. With at least one page and the text \<open>t\<close> on the first, phase 1 prints, after
  the page count and the metadata, its heading, the first 500 characters of \<open>t\<close> (all of
  \<open>t\<close> when it has no more) and the ellipsis. Phase 2, for a text \<open>t'\<close> that is not
  empty, prints the heading of the preview and then the first 300 characters of \<open>t'\<close>
  with the ellipsis, whatever comes after.
\<close>

theorem text_previews:
  "(open_rb env p = Inr file \<and> PdfReader env file = Inr rd \<and> num_pages rd = Inr n \<and> 0 < n
      \<and> metadata rd = Inr md \<and> get_page rd 0 = Inr page \<and> extract_text page = Inr t \<longrightarrow>
    stdout (snd (pypdf2_phase env p s)) =
      stdout s @ [''Number of pages: '' @ str_nat n] @ metadata_lines md
        @ [newline @ ''First 500 characters of text:'' @ newline
             @ (if length t \<le> 500 then t else take 500 t) @ ''...''])
   \<and> (pdfplumber_open env p = Inr pdf \<and> pl_pages pdf = Inr (ppage # rest)
        \<and> pl_extract_text ppage = Inr (Some t') \<and> t' \<noteq> [] \<longrightarrow>
      (\<exists>more. stdout (snd (plumber_phase env p s')) =
         stdout s' @ [''PDF opened with pdfplumber'',
                      ''Number of pages: '' @ str_nat (length (ppage # rest)),
                      newline @ ''Extracted text preview (first 300 chars):'',
                      take 300 t' @ ''...''] @ more))"
proof (intro conjI impI)
  assume "open_rb env p = Inr file \<and> PdfReader env file = Inr rd \<and> num_pages rd = Inr n \<and> 0 < n
      \<and> metadata rd = Inr md \<and> get_page rd 0 = Inr page \<and> extract_text page = Inr t"
  then show "stdout (snd (pypdf2_phase env p s)) =
      stdout s @ [''Number of pages: '' @ str_nat n] @ metadata_lines md
        @ [newline @ ''First 500 characters of text:'' @ newline
             @ (if length t \<le> 500 then t else take 500 t) @ ''...'']"
    by (simp add: pypdf2_phase_run [where t = t])
next
  assume "pdfplumber_open env p = Inr pdf \<and> pl_pages pdf = Inr (ppage # rest)
        \<and> pl_extract_text ppage = Inr (Some t') \<and> t' \<noteq> []"
  then show "\<exists>more. stdout (snd (plumber_phase env p s')) =
         stdout s' @ [''PDF opened with pdfplumber'',
                      ''Number of pages: '' @ str_nat (length (ppage # rest)),
                      newline @ ''Extracted text preview (first 300 chars):'',
                      take 300 t' @ ''...''] @ more"
    using plumber_phase_preview [of env p pdf ppage rest t' s'] by blast
qed

lemma stdout_init: "stdout init = []"
  by (simp add: init_def)

theorem text_previews_witness:
  "extract_text (example_page ''Hello World'') = Inr ''Hello World''
   \<and> stdout (snd (pypdf2_phase hello_env ''good-fonts.pdf'' init)) =
       [''Number of pages: 1'',
        newline @ ''First 500 characters of text:'' @ newline @ ''Hello World...'']
   \<and> take 4 (stdout (snd (plumber_phase hello_env ''good-fonts.pdf'' init))) =
       [''PDF opened with pdfplumber'', ''Number of pages: 1'',
        newline @ ''Extracted text preview (first 300 chars):'', ''Hello World...'']"
proof -
  let ?cs = "map hello_char ''Hello World''"
  let ?rd = "example_reader 1 ''Hello World''"
  let ?pg = "example_plumber_page ''Hello World'' ?cs"
  have h1: "open_rb hello_env ''good-fonts.pdf'' = Inr 3 \<and> PdfReader hello_env 3 = Inr ?rd
      \<and> num_pages ?rd = Inr 1 \<and> (0::nat) < 1 \<and> metadata ?rd = Inr None
      \<and> get_page ?rd 0 = Inr (example_page ''Hello World'')
      \<and> extract_text (example_page ''Hello World'') = Inr ''Hello World''"
    by (simp add: hello_env_def example_env_def example_reader_def example_page_def)
  have h2: "pdfplumber_open hello_env ''good-fonts.pdf'' = Inr (example_pdf 1 ''Hello World'' ?cs)
      \<and> pl_pages (example_pdf 1 ''Hello World'' ?cs) = Inr (?pg # [])
      \<and> pl_extract_text ?pg = Inr (Some ''Hello World'') \<and> ''Hello World'' \<noteq> []"
    by (simp add: hello_env_def example_env_def example_pdf_def example_plumber_page_def)
  note inst = text_previews [of hello_env "''good-fonts.pdf''" 3 ?rd 1 None
      "example_page ''Hello World''" "''Hello World''" init
      "example_pdf 1 ''Hello World'' ?cs" ?pg "[]" "''Hello World''" init]
  from inst h1 have c1: "stdout (snd (pypdf2_phase hello_env ''good-fonts.pdf'' init)) =
      stdout init @ [''Number of pages: '' @ str_nat 1] @ metadata_lines None
        @ [newline @ ''First 500 characters of text:'' @ newline
             @ (if length ''Hello World'' \<le> 500 then ''Hello World''
                else take 500 ''Hello World'') @ ''...'']"
    by blast
  from inst h2 obtain more where
    c2: "stdout (snd (plumber_phase hello_env ''good-fonts.pdf'' init)) =
         stdout init @ [''PDF opened with pdfplumber'',
                      ''Number of pages: '' @ str_nat (length [?pg]),
                      newline @ ''Extracted text preview (first 300 chars):'',
                      take 300 ''Hello World'' @ ''...''] @ more"
    by blast
  show ?thesis
    using h1 c1 c2 by (simp add: stdout_init str_nat_1 metadata_lines_def)
qed



subsection \<open>Two runs on the same file\<close>






text \<open>
  The last hypothesis is needed: two processes that rank the strings differently print
  the same set of two fonts in two orders.
\<close>

lemma font_line_depends_on_hash_rank:
  "str_str_set two_fonts_env (fonts_found two_fonts)
     = ''{'' @ example_repr_str ''Times'' @ '', '' @ example_repr_str ''Helvetica'' @ ''}''
   \<and> str_str_set flat_rank_env (fonts_found two_fonts)
     = ''{'' @ example_repr_str ''Helvetica'' @ '', '' @ example_repr_str ''Times'' @ ''}''
   \<and> font_report two_fonts_env two_fonts init \<noteq> font_report flat_rank_env two_fonts init"
  by code_simp

text \<open>No \<^verbatim>\<open>Exception\<close> leaves a phase, whatever the libraries do.\<close>

lemma every_Exception_is_caught:
  "fst (pypdf2_phase env p s) \<noteq> Some (Exception m)
   \<and> fst (plumber_phase env p s) \<noteq> Some (Exception m)"
  by (simp add: pypdf2_phase_def plumber_phase_def try_except_def py_print_def
      split: prod.splits option.splits exn.splits)

subsection \<open>The script on a page that reads Hello World\<close>

text \<open>
  A run of the script on a document of one page with the text \<^verbatim>\<open>Hello World\<close> in one font
  of 12 points: the page count is 1 in both phases, both previews hold the text, one font
  is found, and the sizes found are \<^verbatim>\<open>[12.0]\<close>.
\<close>

lemma hello_chars_lines:
  "chars_lines hello_env (map hello_char ''Hello World'') =
     [newline @ ''Unique fonts found: {'' @ example_repr_str ''Helvetica'' @ ''}'',
      ''Font sizes found: [12.0]'',
      newline @ ''Sample character details (first 5):'',
      ''  Char 0: '' @ example_repr_str ''H'' @ '' - Font: Helvetica - Size: 12.0'',
      ''  Char 1: '' @ example_repr_str ''e'' @ '' - Font: Helvetica - Size: 12.0'',
      ''  Char 2: '' @ example_repr_str ''l'' @ '' - Font: Helvetica - Size: 12.0'',
      ''  Char 3: '' @ example_repr_str ''l'' @ '' - Font: Helvetica - Size: 12.0'',
      ''  Char 4: '' @ example_repr_str ''o'' @ '' - Font: Helvetica - Size: 12.0'']"
  by code_simp

lemma hello_world_scenario:
  "main hello_env =
     (None,
      \<lparr>stdout =
         [''Analyzing PDF: good-fonts.pdf'' @ newline,
          ''Number of pages: 1'',
          newline @ ''First 500 characters of text:'' @ newline @ ''Hello World...'',
          separator,
          ''PDF opened with pdfplumber'',
          ''Number of pages: 1'',
          newline @ ''Extracted text preview (first 300 chars):'',
          ''Hello World...'']
          @ chars_lines hello_env (map hello_char ''Hello World''),
       fd_log = [Opened 3, Closed 3, Opened 4, Closed 4]\<rparr>)
   \<and> exit_status (main hello_env) = 0"
proof -
  let ?cs = "map hello_char ''Hello World''"
  have p1: "pypdf2_phase hello_env ''good-fonts.pdf'' s =
     (None, s\<lparr>stdout := stdout s @ [''Number of pages: '' @ str_nat 1] @ metadata_lines None
                   @ [newline @ ''First 500 characters of text:'' @ newline
                        @ take 500 ''Hello World'' @ ''...''],
               fd_log := fd_log s @ [Opened 3, Closed 3]\<rparr>)" for s
    by (rule pypdf2_phase_run [where rd = "example_reader 1 ''Hello World''"
          and page = "example_page ''Hello World''"])
       (simp_all add: hello_env_def example_env_def example_reader_def example_page_def)
  have p2: "plumber_phase hello_env ''good-fonts.pdf'' s =
     (None, s\<lparr>stdout := stdout s @
                 [''PDF opened with pdfplumber'',
                  ''Number of pages: '' @ str_nat (length (example_plumber_page ''Hello World'' ?cs # []))]
                 @ preview_lines (Some ''Hello World'') @ chars_lines hello_env ?cs,
               fd_log := fd_log s @ [Opened (pl_stream (example_pdf 1 ''Hello World'' ?cs)),
                                     Closed (pl_stream (example_pdf 1 ''Hello World'' ?cs))]\<rparr>)" for s
    by (rule plumber_phase_run)
       (simp_all add: hello_env_def example_env_def example_pdf_def example_plumber_page_def)
  have run: "main hello_env =
     (None,
      \<lparr>stdout =
         [''Analyzing PDF: good-fonts.pdf'' @ newline,
          ''Number of pages: 1'',
          newline @ ''First 500 characters of text:'' @ newline @ ''Hello World...'',
          separator,
          ''PDF opened with pdfplumber'',
          ''Number of pages: 1'',
          newline @ ''Extracted text preview (first 300 chars):'',
          ''Hello World...'']
          @ chars_lines hello_env (map hello_char ''Hello World''),
       fd_log = [Opened 3, Closed 3, Opened 4, Closed 4]\<rparr>)"
    by (simp add: main_def analyze_pdf_fonts_def seq_def py_print_def p1 p2 init_def str_nat_1
        metadata_lines_def preview_lines_def example_pdf_def)
  then show ?thesis
    by (simp add: exit_status_def)
qed

end
